theory Spec2Isabelle
  imports Complex_Main "HOL-Library.AList"
begin

section \<open>world\_population\_analysis.py: a shallow embedding\<close>

text \<open>
  The script loads a population table and a boundary collection, joins them, clusters the
  centroids of the populous countries with DBSCAN, and sums the population per continent
  and year. Every function of the script is a HOL function of the same name; a Python
  exception is the \<open>Inl\<close> side of a sum. Library calls (pandas, numpy, scikit-learn,
  folium) are written out as the list functions they compute on the data model below.
\<close>

datatype error = FileNotFoundError | ValueError | IndexError | KeyError | TypeError

subsection \<open>Strings and column headers\<close>

text \<open>
  Column headers are ASCII text. On ASCII text \<open>str.isdigit\<close> holds for a non-empty
  string of the characters 0 to 9, and Python orders strings lexicographically by
  character code, a proper prefix before its extensions.
\<close>

definition isdigit_char :: "char \<Rightarrow> bool" where
  "isdigit_char c = (48 \<le> (of_char c :: nat) \<and> (of_char c :: nat) \<le> 57)"

definition isdigit :: "string \<Rightarrow> bool" where
  "isdigit s = (s \<noteq> [] \<and> list_all isdigit_char s)"

fun str_less :: "string \<Rightarrow> string \<Rightarrow> bool" where
  "str_less [] [] = False"
| "str_less [] (y # ys) = True"
| "str_less (x # xs) [] = False"
| "str_less (x # xs) (y # ys) =
     (if x = y then str_less xs ys else (of_char x :: nat) < of_char y)"



text \<open>The integer a string of decimal digits denotes (\<open>int(col)\<close>).\<close>

definition digit_val :: "char \<Rightarrow> nat" where
  "digit_val c = of_char c - 48"

definition int_of_digits :: "string \<Rightarrow> nat" where
  "int_of_digits s = fold (\<lambda>c n. 10 * n + digit_val c) s 0"

subsection \<open>Data frames\<close>

text \<open>
  A cell of a table read by \<open>pd.read_csv\<close> is text, a number or null (NaN/None).
  Numbers are rationals: floating-point rounding is not modelled. A \<open>DataFrame\<close> is
  its columns in order, each a header with its cells; a frame's columns have one length,
  and \<open>read_csv\<close> makes the headers distinct.
\<close>

datatype cell = Str string | Num rat | Null

type_synonym frame = "(string \<times> cell list) list"

text \<open>
  A row of the boundary collection joined with the population: \<open>population\<close> is a
  numeric column, \<open>None\<close> its NaN.
\<close>

record 'g geo_row =
  country :: string
  geometry :: 'g
  population :: "rat option"

subsection \<open>\<open>load_and_preprocess_data\<close>\<close>

definition country_name_map :: "(string \<times> string) list" where
  "country_name_map =
     [(''United States'', ''United States of America''),
      (''Russian Federation'', ''Russia''),
      (''Egypt, Arab Rep.'', ''Egypt''),
      (''Hong Kong SAR, China'', ''Hong Kong''),
      (''Iran, Islamic Rep.'', ''Iran''),
      (''Macao SAR, China'', ''Macau''),
      (''Congo, Dem. Rep.'', ''Democratic Republic of the Congo''),
      (''Congo, Rep.'', ''Republic of the Congo''),
      (''Venezuela, RB'', ''Venezuela''),
      (''Yemen, Rep.'', ''Yemen''),
      (''Korea, Rep.'', ''South Korea''),
      (''United Kingdom'', ''United Kingdom'')]"

text \<open>\<open>Series.replace(country_name_map)\<close>: a cell equal to a key becomes its value.\<close>

definition replace_names :: "cell \<Rightarrow> cell" where
  "replace_names c =
     (case c of
        Str s \<Rightarrow> (case map_of country_name_map s of Some t \<Rightarrow> Str t | None \<Rightarrow> Str s)
      | _ \<Rightarrow> c)"

text \<open>
  \<open>pop_df[["country", RECENT_YEAR]]\<close>: for each label in turn, every column of that name.
\<close>

definition select_columns :: "string list \<Rightarrow> frame \<Rightarrow> frame" where
  "select_columns labels df = concat (map (\<lambda>l. filter (\<lambda>(h, col). h = l) df) labels)"

text \<open>
  \<open>astype(int)\<close> truncates a number towards zero. A null cannot be cast, and on the
  text of a non-numeric column the cast is taken to raise (ValueError both).
\<close>

definition trunc_to_zero :: "rat \<Rightarrow> int" where
  "trunc_to_zero q = (if q < 0 then \<lceil>q\<rceil> else \<lfloor>q\<rfloor>)"

fun astype_int :: "cell list \<Rightarrow> error + int list" where
  "astype_int [] = Inr []"
| "astype_int (Num q # cs) =
     (case astype_int cs of Inl e \<Rightarrow> Inl e | Inr vs \<Rightarrow> Inr (trunc_to_zero q # vs))"
| "astype_int (c # cs) = Inl ValueError"

text \<open>
  The dtype of a column is \<open>object\<close> when it holds text, and when the table has no rows;
  a column of numbers and nulls only is numeric.
\<close>

definition is_object :: "cell list \<Rightarrow> bool" where
  "is_object col = (col = [] \<or> list_ex (\<lambda>c. case c of Str s \<Rightarrow> True | _ \<Rightarrow> False) col)"

text \<open>
  \<open>world_gdf.merge(pop_recent, on="country", how="left")\<close>: the boundary rows in their
  order; each is paired with every population row of the same name, in the population
  table's order, and kept with a null population when there is none.
\<close>

definition merge_left :: "(string \<times> 'g) list \<Rightarrow> (cell \<times> int) list \<Rightarrow> 'g geo_row list" where
  "merge_left world_gdf pop_recent =
     concat (map (\<lambda>(name, geom).
        (case filter (\<lambda>(k, v). k = Str name) pop_recent of
           [] \<Rightarrow> [\<lparr>country = name, geometry = geom, population = None\<rparr>]
         | ms \<Rightarrow> map (\<lambda>(k, v). \<lparr>country = name, geometry = geom,
                                population = Some (of_int v)\<rparr>) ms)) world_gdf)"

text \<open>
  \<open>dropna(subset=["population"])\<close> on the rows (name, value) of \<open>pop_recent\<close>.
\<close>

definition dropna :: "(cell \<times> cell) list \<Rightarrow> (cell \<times> cell) list" where
  "dropna rows = filter (\<lambda>(n, v). v \<noteq> Null) rows"

definition fillna :: "rat \<Rightarrow> 'g geo_row \<Rightarrow> 'g geo_row" where
  "fillna v r = (case population r of None \<Rightarrow> r\<lparr>population := Some v\<rparr> | Some p \<Rightarrow> r)"

text \<open>
  \<open>load_and_preprocess_data\<close>, given the value of \<open>RECENT_YEAR\<close>, the table read from
  the CSV file and the boundary rows (name and geometry) read from the GeoJSON file.
  \<open>pop_df.columns[0]\<close> raises IndexError on a table without columns. Naming the two
  selected columns fails with ValueError unless the selection has exactly two columns,
  and so does merging the text column of boundary names with a numeric key column. The
  second component of the result is the renamed table, which \<open>main\<close> later hands to
  \<open>create_time_series_plot\<close>.
\<close>

definition load_and_preprocess_data ::
  "string \<Rightarrow> frame \<Rightarrow> (string \<times> 'g) list \<Rightarrow> error + ('g geo_row list \<times> frame)" where
  "load_and_preprocess_data recent_year csv world_gdf =
     (case csv of
        [] \<Rightarrow> Inl IndexError
      | (first_col_name, _) # _ \<Rightarrow>
          let pop_df = map (\<lambda>(h, col). (if h = first_col_name then ''country'' else h, col)) csv
          in if recent_year \<notin> set (map fst pop_df) then Inl ValueError
             else
               (case select_columns [''country'', recent_year] pop_df of
                  [(_, names), (_, values)] \<Rightarrow>
                    let pop_recent = dropna (zip names values)
                    in (case astype_int (map snd pop_recent) of
                          Inl e \<Rightarrow> Inl e
                        | Inr ints \<Rightarrow>
                            let pop_recent' = zip (map (replace_names \<circ> fst) pop_recent) ints
                            in if \<not> is_object names then Inl ValueError
                               else Inr (map (fillna 0) (merge_left world_gdf pop_recent'),
                                         pop_df))
                | _ \<Rightarrow> Inl ValueError))"

subsection \<open>DBSCAN\<close>

text \<open>
  \<open>sklearn.cluster.DBSCAN(eps, min_samples).fit(X)\<close> with the Euclidean metric.
  The neighbourhood of a sample is every sample within \<open>eps\<close> of it, itself included; a
  core sample has at least \<open>min_samples\<close> neighbours. Every sample starts as noise
  (\<open>-1\<close>); going through the samples in order, each core sample still unlabelled opens
  the next cluster, which is grown over a stack of samples to visit. An input without
  samples (\<open>np.array\<close> of an empty list is an empty one-dimensional array) is rejected
  by the input validation with ValueError. Coordinates are rationals, and the distance
  test compares squares.
\<close>

type_synonym point = "rat \<times> rat"

definition within_eps :: "rat \<Rightarrow> point \<Rightarrow> point \<Rightarrow> bool" where
  "within_eps eps p q = ((fst p - fst q)\<^sup>2 + (snd p - snd q)\<^sup>2 \<le> eps\<^sup>2)"

definition radius_neighbors :: "rat \<Rightarrow> point list \<Rightarrow> nat list list" where
  "radius_neighbors eps X =
     map (\<lambda>p. filter (\<lambda>j. within_eps eps p (X ! j)) [0..<length X]) X"

function expand_cluster ::
  "nat list list \<Rightarrow> bool list \<Rightarrow> nat \<Rightarrow> nat list \<Rightarrow> int list \<Rightarrow> int list" where
  "expand_cluster neighborhoods is_core label_num [] labels = labels"
| "expand_cluster neighborhoods is_core label_num (i # stack) labels =
     (if i < length labels \<and> labels ! i = -1 then
        (let labels' = labels[i := int label_num]
         in if is_core ! i
            then expand_cluster neighborhoods is_core label_num
                   (rev (filter (\<lambda>v. labels' ! v = -1) (neighborhoods ! i)) @ stack) labels'
            else expand_cluster neighborhoods is_core label_num stack labels')
      else expand_cluster neighborhoods is_core label_num stack labels)"
  by pat_completeness auto

termination
proof (relation "measures [\<lambda>(nb, cs, k, st, ls). count_list ls (-1), \<lambda>(nb, cs, k, st, ls). length st]")
  have dec: "i < length ls \<Longrightarrow> ls ! i = -1 \<Longrightarrow>
               count_list (ls[i := int k]) (-1) < count_list ls (-1)"
    for ls :: "int list" and i k
  proof (induction ls arbitrary: i)
    case Nil
    then show ?case by simp
  next
    case (Cons a ls)
    then show ?case by (cases i) auto
  qed
  show "wf (measures [\<lambda>(nb, cs, k, st, ls). count_list ls (-1),
                      \<lambda>(nb, cs, k, st, ls). length st])"
    by simp
  show "((nb, cs, k, rev (filter (\<lambda>v. ls' ! v = -1) (nb ! i)) @ st, ls'), (nb, cs, k, i # st, ls))
          \<in> measures [\<lambda>(nb, cs, k, st, ls). count_list ls (-1), \<lambda>(nb, cs, k, st, ls). length st]"
    if "i < length ls \<and> ls ! i = -1" and "ls' = ls[i := int k]" and "cs ! i"
    for nb :: "nat list list" and cs :: "bool list" and k i :: nat and st :: "nat list"
      and ls ls' :: "int list"
    using that dec [of i ls k] by simp
  show "((nb, cs, k, st, ls'), (nb, cs, k, i # st, ls))
          \<in> measures [\<lambda>(nb, cs, k, st, ls). count_list ls (-1), \<lambda>(nb, cs, k, st, ls). length st]"
    if "i < length ls \<and> ls ! i = -1" and "ls' = ls[i := int k]" and "\<not> cs ! i"
    for nb :: "nat list list" and cs :: "bool list" and k i :: nat and st :: "nat list"
      and ls ls' :: "int list"
    using that dec [of i ls k] by simp
  show "((nb, cs, k, st, ls), (nb, cs, k, i # st, ls))
          \<in> measures [\<lambda>(nb, cs, k, st, ls). count_list ls (-1), \<lambda>(nb, cs, k, st, ls). length st]"
    if "\<not> (i < length ls \<and> ls ! i = -1)"
    for nb :: "nat list list" and cs :: "bool list" and k i :: nat and st :: "nat list"
      and ls :: "int list"
    by simp
qed

declare expand_cluster.simps [simp del]

fun dbscan_inner ::
  "bool list \<Rightarrow> nat list list \<Rightarrow> nat list \<Rightarrow> nat \<Rightarrow> int list \<Rightarrow> int list" where
  "dbscan_inner is_core neighborhoods [] label_num labels = labels"
| "dbscan_inner is_core neighborhoods (i # rest) label_num labels =
     (if labels ! i \<noteq> -1 \<or> \<not> is_core ! i
      then dbscan_inner is_core neighborhoods rest label_num labels
      else dbscan_inner is_core neighborhoods rest (label_num + 1)
             (expand_cluster neighborhoods is_core label_num [i] labels))"

definition DBSCAN_fit :: "rat \<Rightarrow> nat \<Rightarrow> point list \<Rightarrow> error + int list" where
  "DBSCAN_fit eps min_samples X =
     (if X = [] then Inl ValueError
      else
        let neighborhoods = radius_neighbors eps X;
            core_samples = map (\<lambda>nb. min_samples \<le> length nb) neighborhoods
        in Inr (dbscan_inner core_samples neighborhoods [0..<length X] 0
                  (replicate (length X) (-1))))"

subsection \<open>\<open>perform_hotspot_analysis\<close>\<close>

text \<open>
  The rows of \<open>hotspot_gdf\<close>: the row of \<open>gdf\<close> with the two columns the function adds.
  The centroid is \<open>(x, y)\<close>, longitude first.
\<close>

record 'g hotspot_row = "'g geo_row" +
  centroid :: point
  cluster :: int

record marker =
  location :: point
  radius :: nat
  color :: string
  fill :: bool
  fill_color :: string
  fill_opacity :: rat
  popup :: string

datatype layer = Choropleth string | FeatureGroup string "marker list" | LayerControl

text \<open>\<open>str(n)\<close> of a natural number, for the popup text.\<close>

fun str_nat :: "nat \<Rightarrow> string" where
  "str_nat n =
     (if n < 10 then [char_of (48 + n)] else str_nat (n div 10) @ [char_of (48 + n mod 10)])"

declare str_nat.simps [simp del]

text \<open>The eleven colours of \<open>px.colors.qualitative.Bold\<close>.\<close>

definition Bold :: "string list" where
  "Bold =
     [''rgb(127, 60, 141)'', ''rgb(17, 165, 121)'', ''rgb(57, 105, 172)'',
      ''rgb(242, 183, 1)'', ''rgb(231, 63, 116)'', ''rgb(128, 186, 90)'',
      ''rgb(230, 131, 16)'', ''rgb(0, 134, 149)'', ''rgb(207, 28, 144)'',
      ''rgb(249, 123, 114)'', ''rgb(165, 170, 153)'']"

text \<open>
  Lines 153 to 163: the rows above the threshold (a comparison with NaN is false), their
  centroids, the clustering of the \<open>[y, x]\<close> pairs, and the labels as a new column.
  \<open>centroid_of\<close> is the centroid geopandas computes for a geometry.
\<close>

definition above_threshold :: "'g geo_row \<Rightarrow> bool" where
  "above_threshold r = (case population r of None \<Rightarrow> False | Some p \<Rightarrow> p > 1000000)"

definition hotspot_gdf ::
  "('g \<Rightarrow> point) \<Rightarrow> 'g geo_row list \<Rightarrow> error + 'g hotspot_row list" where
  "hotspot_gdf centroid_of gdf =
     (let rows = filter above_threshold gdf;
          centroids = map (\<lambda>r. centroid_of (geometry r)) rows;
          coords = map (\<lambda>p. (snd p, fst p)) centroids
      in (case DBSCAN_fit 15 3 coords of
            Inl e \<Rightarrow> Inl e
          | Inr labels \<Rightarrow>
              Inr (map (\<lambda>(r, l). \<lparr>country = country r, geometry = geometry r,
                                   population = population r,
                                   centroid = centroid_of (geometry r), cluster = l\<rparr>)
                     (zip rows labels))))"

text \<open>\<open>len(set(db.labels_)) - (1 if -1 in db.labels_ else 0)\<close>\<close>

definition num_clusters :: "int list \<Rightarrow> nat" where
  "num_clusters labels = length (remdups labels) - (if -1 \<in> set labels then 1 else 0)"

definition circle_marker :: "string list \<Rightarrow> nat \<Rightarrow> 'g hotspot_row \<Rightarrow> error + marker" where
  "circle_marker colors cluster_id row =
     (if cluster_id < length colors
      then Inr \<lparr>location = (snd (centroid row), fst (centroid row)), radius = 5,
                color = colors ! cluster_id, fill = True,
                fill_color = colors ! cluster_id, fill_opacity = 8 / 10,
                popup = country row @ '' (Cluster '' @ str_nat cluster_id @ '')''\<rparr>
      else Inl IndexError)"

text \<open>The inner loop, over the rows of one cluster, and the outer loop, over the cluster ids.\<close>

fun add_markers ::
  "string list \<Rightarrow> nat \<Rightarrow> 'g hotspot_row list \<Rightarrow> marker list \<Rightarrow> error + marker list" where
  "add_markers colors cluster_id [] hotspot_layer = Inr hotspot_layer"
| "add_markers colors cluster_id (row # rows) hotspot_layer =
     (case circle_marker colors cluster_id row of
        Inl e \<Rightarrow> Inl e
      | Inr m \<Rightarrow> add_markers colors cluster_id rows (hotspot_layer @ [m]))"

fun render_clusters ::
  "string list \<Rightarrow> 'g hotspot_row list \<Rightarrow> nat list \<Rightarrow> marker list \<Rightarrow> error + marker list" where
  "render_clusters colors hs [] hotspot_layer = Inr hotspot_layer"
| "render_clusters colors hs (cluster_id # ids) hotspot_layer =
     (case add_markers colors cluster_id
             (filter (\<lambda>r. cluster r = int cluster_id) hs) hotspot_layer of
        Inl e \<Rightarrow> Inl e
      | Inr hotspot_layer' \<Rightarrow> render_clusters colors hs ids hotspot_layer')"

text \<open>
  \<open>perform_hotspot_analysis\<close>, given the palette. It returns the number of clusters it
  prints and the children of \<open>folium_map\<close> after the call: the function adds the hotspot
  layer to the map it is given.
\<close>

definition perform_hotspot_analysis ::
  "('g \<Rightarrow> point) \<Rightarrow> string list \<Rightarrow> 'g geo_row list \<Rightarrow> layer list \<Rightarrow> error + (nat \<times> layer list)"
  where
  "perform_hotspot_analysis centroid_of palette gdf folium_map =
     (case hotspot_gdf centroid_of gdf of
        Inl e \<Rightarrow> Inl e
      | Inr hs \<Rightarrow>
          let n = num_clusters (map cluster hs);
              colors = take n palette
          in (case render_clusters colors hs [0..<n] [] of
                Inl e \<Rightarrow> Inl e
              | Inr hotspot_layer \<Rightarrow>
                  Inr (n, folium_map @ [FeatureGroup ''Population Hotspots'' hotspot_layer])))"

subsection \<open>\<open>create_time_series_plot\<close>\<close>

text \<open>
  \<open>get_continent\<close>: the two lookups of \<open>pycountry_convert\<close> are parameters, \<open>None\<close>
  where the library raises; the bare \<open>except\<close> turns every failure into \<open>None\<close>.
\<close>

definition get_continent ::
  "(string \<Rightarrow> string option) \<Rightarrow> (string \<Rightarrow> string option) \<Rightarrow> cell \<Rightarrow> cell" where
  "get_continent country_name_to_country_alpha2 country_alpha2_to_continent_code country_name =
     (case country_name of
        Str s \<Rightarrow>
          (case country_name_to_country_alpha2 s of
             None \<Rightarrow> Null
           | Some alpha2 \<Rightarrow>
               (case country_alpha2_to_continent_code alpha2 of
                  None \<Rightarrow> Null
                | Some code \<Rightarrow> Str code))
      | _ \<Rightarrow> Null)"

definition column :: "frame \<Rightarrow> string \<Rightarrow> cell list" where
  "column df h = (case map_of df h of Some col \<Rightarrow> col | None \<Rightarrow> [])"

text \<open>
  \<open>pd.melt\<close> with \<open>id_vars = ['country', 'continent']\<close>: one block of rows per value
  column, in the order of \<open>value_vars\<close>. A long row is (country, continent, year,
  population).
\<close>

type_synonym long_row = "cell \<times> cell \<times> string \<times> cell"

definition melt :: "frame \<Rightarrow> string list \<Rightarrow> long_row list" where
  "melt df value_vars =
     concat (map (\<lambda>v. map (\<lambda>(n, c, p). (n, c, v, p))
                         (zip (column df ''country'')
                            (zip (column df ''continent'') (column df v))))
               value_vars)"

text \<open>
  \<open>groupby(['continent', 'year'])\<close> drops the rows with a null key and sorts the groups
  by key. \<open>sum()\<close> skips nulls, and gives 0 for a group of nulls only; adding text to
  numbers raises TypeError.
\<close>

fun key_less :: "string \<times> string \<Rightarrow> string \<times> string \<Rightarrow> bool" where
  "key_less (c1, y1) (c2, y2) = (str_less c1 c2 \<or> (c1 = c2 \<and> str_less y1 y2))"

fun insert_key :: "string \<times> string \<Rightarrow> (string \<times> string) list \<Rightarrow> (string \<times> string) list" where
  "insert_key k [] = [k]"
| "insert_key k (x # xs) = (if key_less x k then x # insert_key k xs else k # x # xs)"

definition sort_keys :: "(string \<times> string) list \<Rightarrow> (string \<times> string) list" where
  "sort_keys ks = foldr insert_key ks []"

definition group_keys :: "long_row list \<Rightarrow> (string \<times> string) list" where
  "group_keys long_df =
     sort_keys (remdups (concat (map (\<lambda>(n, c, y, p). case c of Str k \<Rightarrow> [(k, y)] | _ \<Rightarrow> [])
                                   long_df)))"

fun sum_cells :: "cell list \<Rightarrow> error + rat" where
  "sum_cells [] = Inr 0"
| "sum_cells (Null # cs) = sum_cells cs"
| "sum_cells (Num q # cs) = (case sum_cells cs of Inl e \<Rightarrow> Inl e | Inr t \<Rightarrow> Inr (q + t))"
| "sum_cells (Str s # cs) = Inl TypeError"

definition group_cells :: "long_row list \<Rightarrow> string \<times> string \<Rightarrow> cell list" where
  "group_cells long_df k =
     map (\<lambda>(n, c, y, p). p) (filter (\<lambda>(n, c, y, p). c = Str (fst k) \<and> y = snd k) long_df)"

fun groupby_sum :: "long_row list \<Rightarrow> (string \<times> string) list \<Rightarrow> error + (cell \<times> string \<times> cell) list"
  where
  "groupby_sum long_df [] = Inr []"
| "groupby_sum long_df (k # ks) =
     (case sum_cells (group_cells long_df k) of
        Inl e \<Rightarrow> Inl e
      | Inr t \<Rightarrow>
          (case groupby_sum long_df ks of
             Inl e \<Rightarrow> Inl e
           | Inr rows \<Rightarrow> Inr ((Str (fst k), snd k, Num t) # rows)))"

text \<open>A row of \<open>continent_ts\<close> as it is handed to \<open>px.line\<close>.\<close>

record ts_row =
  continent :: cell
  year :: nat
  total :: cell

text \<open>
  \<open>create_time_series_plot\<close> returns the frame it was given as the call leaves it (the
  assignment in line 206 writes the column into the caller's object, in place when the
  header exists, at the end otherwise) and \<open>continent_ts\<close>.
\<close>

definition create_time_series_plot ::
  "(string \<Rightarrow> string option) \<Rightarrow> (string \<Rightarrow> string option) \<Rightarrow> frame \<Rightarrow> error + (frame \<times> ts_row list)"
  where
  "create_time_series_plot country_name_to_country_alpha2 country_alpha2_to_continent_code pop_df =
     (case map_of pop_df ''country'' of
        None \<Rightarrow> Inl KeyError
      | Some names \<Rightarrow>
          let pop_df' = AList.update ''continent''
                          (map (get_continent country_name_to_country_alpha2
                                  country_alpha2_to_continent_code) names) pop_df;
              value_vars = filter isdigit (map fst pop_df');
              long_df = melt pop_df' value_vars
          in (case groupby_sum long_df (group_keys long_df) of
               Inl e \<Rightarrow> Inl e
             | Inr totals \<Rightarrow>
                 (let continent_ts = filter (\<lambda>(c, y, t). c \<noteq> Null \<and> t \<noteq> Null) totals
                  in Inr (pop_df',
                          map (\<lambda>(c, y, t). \<lparr>continent = c, year = int_of_digits y, total = t\<rparr>)
                            continent_ts))))"

subsection \<open>Arguments passed by reference\<close>

text \<open>
  \<open>main\<close> hands the frames and the map to the functions by reference, so an assignment
  into an argument is seen by the caller. The heap is the list of the objects allocated so
  far and a reference is an index into it. \<open>.copy()\<close> allocates a new object; an
  item assignment or \<open>add_to\<close> overwrites the object the reference points to.
\<close>

datatype 'g object =
    DataFrame frame
  | GeoDataFrame "'g geo_row list"
  | HotspotFrame "'g hotspot_row list"
  | TimeSeries "ts_row list"
  | FoliumMap "layer list"

definition lookup :: "'g object list \<Rightarrow> nat \<Rightarrow> 'g object option" where
  "lookup heap r = (if r < length heap then Some (heap ! r) else None)"

text \<open>
  The call \<open>perform_hotspot_analysis(gdf, folium_map)\<close>: \<open>hotspot_gdf\<close> is a copy, a
  new object that receives the two new columns; the hotspot layer is added to the map
  object of the caller.
\<close>

definition run_perform_hotspot_analysis ::
  "('g \<Rightarrow> point) \<Rightarrow> string list \<Rightarrow> nat \<Rightarrow> nat \<Rightarrow> 'g object list \<Rightarrow> error + 'g object list"
  where
  "run_perform_hotspot_analysis centroid_of palette gdf folium_map heap =
     (case (lookup heap gdf, lookup heap folium_map) of
        (Some (GeoDataFrame rows), Some (FoliumMap children)) \<Rightarrow>
          (case hotspot_gdf centroid_of rows of
             Inl e \<Rightarrow> Inl e
           | Inr hs \<Rightarrow>
               (case perform_hotspot_analysis centroid_of palette rows children of
                  Inl e \<Rightarrow> Inl e
                | Inr (n, children') \<Rightarrow>
                    Inr ((heap @ [HotspotFrame hs])[folium_map := FoliumMap children'])))
      | _ \<Rightarrow> Inl TypeError)"

text \<open>
  The call \<open>create_time_series_plot(pop_df)\<close>: line 206 assigns the new column into the
  caller's frame; \<open>continent_ts\<close> is a new object.
\<close>

definition run_create_time_series_plot ::
  "(string \<Rightarrow> string option) \<Rightarrow> (string \<Rightarrow> string option) \<Rightarrow> nat \<Rightarrow> 'g object list \<Rightarrow>
     error + 'g object list"
  where
  "run_create_time_series_plot country_name_to_country_alpha2 country_alpha2_to_continent_code
     pop_df heap =
     (case lookup heap pop_df of
        Some (DataFrame df) \<Rightarrow>
          (case create_time_series_plot country_name_to_country_alpha2
                  country_alpha2_to_continent_code df of
             Inl e \<Rightarrow> Inl e
           | Inr (df', continent_ts) \<Rightarrow>
               Inr (heap[pop_df := DataFrame df'] @ [TimeSeries continent_ts]))
      | _ \<Rightarrow> Inl TypeError)"

subsection \<open>The totals the specification describes\<close>




subsection \<open>Example inputs\<close>

text \<open>
  Thirty-six countries of two million inhabitants each, whose centroids form twelve
  groups of three: the groups are 30 degrees of longitude apart, the members of a group
  one degree of latitude. The geometry of a row is its centroid.
\<close>

definition twelve_clusters :: "point geo_row list" where
  "twelve_clusters =
     concat (map (\<lambda>k. map (\<lambda>j. \<lparr>country = ''C'' @ str_nat k @ ''_'' @ str_nat j,
                                   geometry = (of_int (int k * 30 - 165), of_int (int j)),
                                   population = Some 2000000\<rparr>) [0..<3]) [0..<12])"

text \<open>
  Three populous neighbours, a small neighbour below the threshold and a small country
  far away; again the geometry of a row is its centroid.
\<close>

definition western_europe :: "point geo_row list" where
  "western_europe =
     [\<lparr>country = ''France'', geometry = (2, 46), population = Some 68000000\<rparr>,
      \<lparr>country = ''Luxembourg'', geometry = (6, 50), population = Some 660000\<rparr>,
      \<lparr>country = ''Germany'', geometry = (10, 51), population = Some 84000000\<rparr>,
      \<lparr>country = ''Iceland'', geometry = (-19, 65), population = Some 380000\<rparr>,
      \<lparr>country = ''Belgium'', geometry = (4, 50), population = Some 11700000\<rparr>]"

text \<open>
  A population table of three countries and one aggregate, with two year columns and
  some missing values, and the part of the \<open>pycountry_convert\<close> tables it needs.
\<close>

definition sample_table :: frame where
  "sample_table =
     [(''country'', [Str ''France'', Str ''World'', Str ''Chad'', Str ''Spain'']),
      (''Country Code'', [Str ''FRA'', Str ''WLD'', Str ''TCD'', Str ''ESP'']),
      (''1960'', [Num 10, Num 100, Null, Num 5]),
      (''2022'', [Num 20, Num 200, Num 7, Null])]"

definition sample_alpha2 :: "string \<Rightarrow> string option" where
  "sample_alpha2 = map_of [(''France'', ''FR''), (''Chad'', ''TD''), (''Spain'', ''ES'')]"

definition sample_continent :: "string \<Rightarrow> string option" where
  "sample_continent = map_of [(''FR'', ''EU''), (''TD'', ''AF''), (''ES'', ''EU'')]"

section \<open>Properties\<close>

subsection \<open>The most recent year\<close>












subsection \<open>The join of boundaries and population\<close>

lemma astype_int_Inr:
  "astype_int cs = Inr vs \<Longrightarrow> list_all2 (\<lambda>c v. \<exists>q. c = Num q \<and> v = trunc_to_zero q) cs vs"
  by (induction cs arbitrary: vs rule: astype_int.induct) (auto split: sum.splits)

lemma filter_single_map_of:
  "filter (\<lambda>(h, col). h = k) df = [(k', c)] \<Longrightarrow> map_of df k = Some c"
proof (induction df)
  case Nil
  then show ?case by simp
next
  case (Cons a df)
  then show ?case
    by (cases a) (auto split: if_splits simp: filter_empty_conv map_of_eq_None_iff image_iff)
qed

lemma select_two:
  assumes "select_columns [a, b] df = [(h1, c1), (h2, c2)]"
    and "a \<in> set (map fst df)" and "b \<in> set (map fst df)"
  shows "column df a = c1 \<and> column df b = c2"
proof -
  let ?fa = "filter (\<lambda>(h, col). h = a) df" and ?fb = "filter (\<lambda>(h, col). h = b) df"
  have ne: "?fa \<noteq> []" "?fb \<noteq> []"
    using assms(2,3) by (auto simp: filter_empty_conv)
  have app: "?fa @ ?fb = [(h1, c1), (h2, c2)]"
    using assms(1) by (simp add: select_columns_def)
  then have "length ?fa + length ?fb = 2"
    by (metis length_append length_Cons list.size(3) numeral_2_eq_2)
  moreover have "0 < length ?fa" "0 < length ?fb"
    using ne by simp_all
  ultimately have l1: "length ?fa = 1" "length ?fb = 1"
    by linarith+
  obtain u v where uv: "?fa = [u]" "?fb = [v]"
    using l1 by (auto simp: length_Suc_conv)
  have "u = (h1, c1)" "v = (h2, c2)"
    using app unfolding uv by simp_all
  then show ?thesis
    using uv by (simp add: column_def filter_single_map_of)
qed

lemma load_Inr:
  assumes "load_and_preprocess_data y csv world = Inr (merged, df)"
  shows "\<exists>ints. astype_int (map snd (dropna (zip (column df ''country'') (column df y)))) = Inr ints \<and>
           merged = map (fillna 0)
             (merge_left world
                (zip (map (replace_names \<circ> fst) (dropna (zip (column df ''country'') (column df y))))
                   ints))"
proof (cases csv)
  case Nil
  with assms show ?thesis by (simp add: load_and_preprocess_data_def)
next
  case (Cons fc rest)
  obtain first col0 where fc: "fc = (first, col0)" by (cases fc)
  define pop_df where "pop_df = map (\<lambda>(h, col). (if h = first then ''country'' else h, col)) csv"
  have c_in: "''country'' \<in> set (map fst pop_df)"
    by (simp add: pop_df_def Cons fc)
  have eq: "load_and_preprocess_data y csv world =
      (if y \<notin> set (map fst pop_df) then Inl ValueError
       else
         (case select_columns [''country'', y] pop_df of
            [(_, names), (_, values)] \<Rightarrow>
              let pop_recent = dropna (zip names values)
              in (case astype_int (map snd pop_recent) of
                    Inl e \<Rightarrow> Inl e
                  | Inr ints \<Rightarrow>
                      let pop_recent' = zip (map (replace_names \<circ> fst) pop_recent) ints
                      in if \<not> is_object names then Inl ValueError
                         else Inr (map (fillna 0) (merge_left world pop_recent'), pop_df))
          | _ \<Rightarrow> Inl ValueError))"
    by (simp only: load_and_preprocess_data_def Cons fc pop_df_def Let_def list.case prod.case)
  have y_in: "y \<in> set (map fst pop_df)"
    using assms unfolding eq by (auto split: if_splits)
  from assms obtain h1 names h2 vals where
    sel: "select_columns [''country'', y] pop_df = [(h1, names), (h2, vals)]"
    unfolding eq using y_in by (auto split: list.splits)
  have cols: "column pop_df ''country'' = names" "column pop_df y = vals"
    using select_two [OF sel c_in y_in] by simp_all
  have "\<exists>ints. astype_int (map snd (dropna (zip names vals))) = Inr ints \<and>
           merged = map (fillna 0)
             (merge_left world (zip (map (replace_names \<circ> fst) (dropna (zip names vals))) ints)) \<and>
           df = pop_df"
    using assms y_in unfolding eq sel
    by (auto simp: Let_def split: if_splits sum.splits)
  then show ?thesis
    unfolding cols [symmetric] by blast
qed

lemma astype_int_length: "astype_int cs = Inr vs \<Longrightarrow> length vs = length cs"
  using astype_int_Inr [of cs vs] by (simp add: list_all2_lengthD)

lemma astype_int_member:
  "astype_int cs = Inr vs \<Longrightarrow> set vs \<subseteq> trunc_to_zero ` {q. Num q \<in> set cs}"
proof (induction cs arbitrary: vs)
  case Nil
  then show ?case by simp
next
  case (Cons c cs)
  show ?case
  proof (cases c)
    case (Num q)
    with Cons.prems obtain ws where ws: "astype_int cs = Inr ws" and vs: "vs = trunc_to_zero q # ws"
      by (auto split: sum.splits)
    from Cons.IH [OF ws] show ?thesis
      unfolding vs Num by auto
  next
    case (Str s)
    with Cons.prems show ?thesis by simp
  next
    case Null
    with Cons.prems show ?thesis by simp
  qed
qed

lemma country_fillna [simp]: "country (fillna v r) = country r"
  by (simp add: fillna_def split: option.splits)

lemma population_fillna:
  "population (fillna v r) = Some (case population r of None \<Rightarrow> v | Some p \<Rightarrow> p)"
  by (simp add: fillna_def split: option.splits)

lemma merge_left_Nil [simp]: "merge_left [] p = []"
  by (simp add: merge_left_def)

lemma merge_left_Cons:
  "merge_left ((name, geom) # w) p =
     (case filter (\<lambda>(k, v). k = Str name) p of
        [] \<Rightarrow> [\<lparr>country = name, geometry = geom, population = None\<rparr>]
      | ms \<Rightarrow> map (\<lambda>(k, v). \<lparr>country = name, geometry = geom, population = Some (of_int v)\<rparr>) ms)
     @ merge_left w p"
  by (simp add: merge_left_def)

lemma merge_left_countries: "set (map country (merge_left w p)) = set (map fst w)"
proof (induction w)
  case Nil
  show ?case by simp
next
  case (Cons a w)
  obtain name geom where a: "a = (name, geom)" by (cases a)
  have "set (map country (case filter (\<lambda>(k, v). k = Str name) p of
        [] \<Rightarrow> [\<lparr>country = name, geometry = geom, population = None\<rparr>]
      | ms \<Rightarrow> map (\<lambda>(k, v). \<lparr>country = name, geometry = geom, population = Some (of_int v)\<rparr>) ms))
      = {name}"
    by (cases "filter (\<lambda>(k, v). k = Str name) p") (auto simp: image_iff)
  then show ?case
    using Cons.IH unfolding a merge_left_Cons by (simp del: set_map add: set_map [symmetric])
qed



lemma merge_left_population:
  assumes "r \<in> set (merge_left w p)"
  shows "(population r = None \<and> Str (country r) \<notin> fst ` set p) \<or>
         (\<exists>v. (Str (country r), v) \<in> set p \<and> population r = Some (of_int v))"
  using assms
proof (induction w)
  case Nil
  then show ?case by simp
next
  case (Cons a w)
  obtain name geom where a: "a = (name, geom)" by (cases a)
  let ?ms = "filter (\<lambda>(k, v). k = Str name) p"
  from Cons.prems consider
    (here) "r \<in> set (case ?ms of
        [] \<Rightarrow> [\<lparr>country = name, geometry = geom, population = None\<rparr>]
      | ms \<Rightarrow> map (\<lambda>(k, v). \<lparr>country = name, geometry = geom, population = Some (of_int v)\<rparr>) ms)"
    | (there) "r \<in> set (merge_left w p)"
    unfolding a merge_left_Cons by auto
  then show ?case
  proof cases
    case here
    show ?thesis
    proof (cases ?ms)
      case Nil
      then have "Str name \<notin> fst ` set p"
        by (auto simp: filter_empty_conv)
      with here Nil show ?thesis by simp
    next
      case (Cons m ms')
      from here have "r \<in> set (map (\<lambda>(k, v). \<lparr>country = name, geometry = geom,
                                         population = Some (of_int v)\<rparr>) ?ms)"
        by (simp only: Cons list.case)
      then obtain x where x: "x \<in> set ?ms"
        and rx: "r = (case x of (k, v) \<Rightarrow>
                   \<lparr>country = name, geometry = geom, population = Some (of_int v)\<rparr>)"
        unfolding set_map by blast
      obtain k v where "x = (k, v)" by (cases x)
      with x rx have kv: "(k, v) \<in> set ?ms"
        and r: "r = \<lparr>country = name, geometry = geom, population = Some (of_int v)\<rparr>"
        by auto
      then have "(Str name, v) \<in> set p" by auto
      with r show ?thesis by auto
    qed
  next
    case there
    then show ?thesis by (rule Cons.IH)
  qed
qed

lemma merged_shape:
  assumes "load_and_preprocess_data y csv world = Inr (merged, df)"
  obtains ints where
    "astype_int (map snd (dropna (zip (column df ''country'') (column df y)))) = Inr ints"
    "merged = map (fillna 0)
       (merge_left world
          (zip (map (replace_names \<circ> fst) (dropna (zip (column df ''country'') (column df y))))
             ints))"
    "map fst (zip (map (replace_names \<circ> fst) (dropna (zip (column df ''country'') (column df y))))
        ints) = map (replace_names \<circ> fst) (dropna (zip (column df ''country'') (column df y)))"
proof -
  from load_Inr [OF assms] obtain ints where
    a: "astype_int (map snd (dropna (zip (column df ''country'') (column df y)))) = Inr ints"
    and m: "merged = map (fillna 0)
       (merge_left world
          (zip (map (replace_names \<circ> fst) (dropna (zip (column df ''country'') (column df y))))
             ints))"
    by blast
  have "length ints = length (dropna (zip (column df ''country'') (column df y)))"
    using astype_int_length [OF a] by simp
  then have "map fst (zip (map (replace_names \<circ> fst) (dropna (zip (column df ''country'') (column df y))))
        ints) = map (replace_names \<circ> fst) (dropna (zip (column df ''country'') (column df y)))"
    by (simp del: map_map)
  with a m show thesis by (rule that)
qed

lemma merged_row_population:
  assumes "load_and_preprocess_data y csv world = Inr (merged, df)" and "r \<in> set merged"
  shows "(population r = Some 0 \<and>
            Str (country r) \<notin> set (map (replace_names \<circ> fst)
                                      (dropna (zip (column df ''country'') (column df y))))) \<or>
         (\<exists>q. Num q \<in> set (column df y) \<and>
              Str (country r) \<in> set (map (replace_names \<circ> fst)
                                      (dropna (zip (column df ''country'') (column df y)))) \<and>
              population r = Some (of_int (trunc_to_zero q)))"
proof -
  let ?pr = "dropna (zip (column df ''country'') (column df y))"
  let ?keys = "map (replace_names \<circ> fst) ?pr"
  from assms(1) obtain ints where
    a: "astype_int (map snd ?pr) = Inr ints"
    and m: "merged = map (fillna 0) (merge_left world (zip ?keys ints))"
    and k: "map fst (zip ?keys ints) = ?keys"
    by (rule merged_shape)
  from assms(2) m obtain r' where r': "r' \<in> set (merge_left world (zip ?keys ints))"
    and r: "r = fillna 0 r'"
    by auto
  have c: "country r = country r'" and p: "population r = Some (case population r' of None \<Rightarrow> 0 | Some p \<Rightarrow> p)"
    unfolding r by (simp_all add: population_fillna)
  have fst_set: "fst ` set (zip ?keys ints) = set ?keys"
    using k by (metis set_map)
  from merge_left_population [OF r'] show ?thesis
  proof
    assume "population r' = None \<and> Str (country r') \<notin> fst ` set (zip ?keys ints)"
    then show ?thesis
      unfolding fst_set using c p by simp
  next
    assume "\<exists>v. (Str (country r'), v) \<in> set (zip ?keys ints) \<and> population r' = Some (of_int v)"
    then obtain v where kv: "(Str (country r'), v) \<in> set (zip ?keys ints)"
      and pv: "population r' = Some (of_int v)"
      by blast
    have "Str (country r') \<in> set ?keys" and "v \<in> set ints"
      using kv by (auto dest: set_zip_leftD set_zip_rightD)
    moreover from astype_int_member [OF a] \<open>v \<in> set ints\<close>
    obtain q where "Num q \<in> set (map snd ?pr)" and v: "v = trunc_to_zero q"
      by blast
    moreover have "set (map snd ?pr) \<subseteq> set (column df y)"
      by (auto simp: dropna_def dest: set_zip_rightD)
    ultimately show ?thesis
      using c p pv by auto
  qed
qed

lemma merged_country_set:
  assumes "load_and_preprocess_data y csv world = Inr (merged, df)"
  shows "set (map country merged) = set (map fst world)"
proof -
  from assms obtain ps where "merged = map (fillna 0) (merge_left world ps)"
    by (rule merged_shape)
  then have "map country merged = map country (merge_left world ps)"
    by simp
  then show ?thesis
    by (simp only: merge_left_countries)
qed


text \<open>
  C6: a boundary country whose name matches no row of the reconciled population table has
  a row in the merged output, and every merged row of that country has population
  exactly 0, not a null.
\<close>

theorem unmatched_boundary_population_zero:
  assumes "load_and_preprocess_data y csv world = Inr (merged, df)"
    and "name \<in> set (map fst world)"
    and "Str name \<notin> set (map replace_names (column df ''country''))"
  shows "(\<exists>r\<in>set merged. country r = name) \<and>
         (\<forall>r\<in>set merged. country r = name \<longrightarrow> population r = Some 0)"
proof
  have "name \<in> set (map country merged)"
    using merged_country_set [OF assms(1)] assms(2) by simp
  then show "\<exists>r\<in>set merged. country r = name" by auto
  have sub: "set (map (replace_names \<circ> fst) (dropna (zip (column df ''country'') (column df y))))
               \<subseteq> set (map replace_names (column df ''country''))"
    by (auto simp: dropna_def dest: set_zip_leftD)
  show "\<forall>r\<in>set merged. country r = name \<longrightarrow> population r = Some 0"
  proof (intro ballI impI)
    fix r
    assume "r \<in> set merged" and "country r = name"
    with merged_row_population [OF assms(1), of r] sub assms(3)
    show "population r = Some 0" by auto
  qed
qed


lemmas load_eval =
  load_and_preprocess_data_def select_columns_def dropna_def replace_names_def
  country_name_map_def merge_left_def fillna_def is_object_def trunc_to_zero_def Let_def
  column_def



theorem unmatched_boundary_population_zero_witness:
  "load_and_preprocess_data ''2022''
     [(''Country Name'', [Str ''Korea, Rep.'', Str ''Chad'']),
      (''2022'', [Num 51000000, Num 17000000])]
     [(''South Korea'', ()), (''Atlantis'', ())]
   = Inr ([\<lparr>country = ''South Korea'', geometry = (), population = Some 51000000\<rparr>,
           \<lparr>country = ''Atlantis'', geometry = (), population = Some 0\<rparr>],
          [(''country'', [Str ''Korea, Rep.'', Str ''Chad'']),
           (''2022'', [Num 51000000, Num 17000000])]) \<and>
   ''Atlantis'' \<in> set (map fst [(''South Korea'', ()), (''Atlantis'', ())]) \<and>
   Str ''Atlantis'' \<notin> set (map replace_names [Str ''Korea, Rep.'', Str ''Chad'']) \<and>
   population \<lparr>country = ''Atlantis'', geometry = (), population = Some 0\<rparr> = Some 0"
  using unmatched_boundary_population_zero [of "''2022''"
     "[(''Country Name'', [Str ''Korea, Rep.'', Str ''Chad'']),
      (''2022'', [Num 51000000, Num 17000000])]"
     "[(''South Korea'', ()), (''Atlantis'', ())]"
     "[\<lparr>country = ''South Korea'', geometry = (), population = Some 51000000\<rparr>,
           \<lparr>country = ''Atlantis'', geometry = (), population = Some 0\<rparr>]"
     "[(''country'', [Str ''Korea, Rep.'', Str ''Chad'']),
           (''2022'', [Num 51000000, Num 17000000])]"
     "''Atlantis''"]
  by (simp add: load_eval)


subsection \<open>Hotspot detection\<close>

lemma length_expand_cluster: "length (expand_cluster nb cs k st ls) = length ls"
proof (induction nb cs k st ls rule: expand_cluster.induct)
  case (1 nb cs k ls)
  show ?case by (simp add: expand_cluster.simps)
next
  case (2 nb cs k i st ls)
  show ?case
  proof (cases "i < length ls \<and> ls ! i = -1")
    case True
    then show ?thesis
      using "2.IH"(1) [OF True refl] "2.IH"(2) [OF True refl]
      by (subst expand_cluster.simps) (simp add: Let_def)
  next
    case False
    then show ?thesis
      using "2.IH"(3) [OF False]
      by (subst expand_cluster.simps) auto
  qed
qed

lemma length_dbscan_inner: "length (dbscan_inner cs nb todo k ls) = length ls"
  by (induction todo arbitrary: k ls) (simp_all add: length_expand_cluster)

lemma length_DBSCAN_fit: "DBSCAN_fit eps m X = Inr labels \<Longrightarrow> length labels = length X"
  by (auto simp: DBSCAN_fit_def Let_def length_dbscan_inner split: if_splits)

lemma dbscan_inner_no_core:
  "\<forall>i\<in>set todo. \<not> cs ! i \<Longrightarrow> dbscan_inner cs nb todo k ls = ls"
  by (induction todo arbitrary: k ls) simp_all

lemma DBSCAN_fit_few:
  assumes "X \<noteq> []" and "length X < m"
  shows "DBSCAN_fit eps m X = Inr (replicate (length X) (-1))"
proof -
  have "\<not> map (\<lambda>nb. m \<le> length nb) (radius_neighbors eps X) ! i" if "i < length X" for i
  proof -
    have "length (radius_neighbors eps X ! i) \<le> length [0..<length X]"
      using that unfolding radius_neighbors_def by (simp del: length_upt)
    then show ?thesis
      using that assms(2) by (simp add: radius_neighbors_def)
  qed
  then have "\<forall>i\<in>set [0..<length X].
      \<not> map (\<lambda>nb. m \<le> length nb) (radius_neighbors eps X) ! i"
    by simp
  then show ?thesis
    using assms(1) by (simp add: DBSCAN_fit_def Let_def dbscan_inner_no_core del: set_upt)
qed

lemma hotspot_gdf_none:
  assumes "filter above_threshold gdf = []"
  shows "hotspot_gdf cen gdf = Inl ValueError"
  using assms unfolding hotspot_gdf_def
  by (simp add: Let_def DBSCAN_fit_def)

lemma remdups_replicate_pos: "0 < n \<Longrightarrow> remdups (replicate n x) = [x]"
proof (induction n)
  case 0
  then show ?case by simp
next
  case (Suc n)
  then show ?case by (cases n) simp_all
qed

lemma few_hotspots:
  assumes "filter above_threshold gdf \<noteq> []" and "length (filter above_threshold gdf) < 3"
  shows "perform_hotspot_analysis cen palette gdf folium_map
           = Inr (0, folium_map @ [FeatureGroup ''Population Hotspots'' []])"
proof -
  let ?rows = "filter above_threshold gdf"
  let ?coords = "map (\<lambda>p. (snd p, fst p)) (map (\<lambda>r. cen (geometry r)) ?rows)"
  have fit: "DBSCAN_fit 15 3 ?coords = Inr (replicate (length ?rows) (-1))"
    using DBSCAN_fit_few [of ?coords 3 15] assms by simp
  define hs where "hs = map (\<lambda>(r, l). \<lparr>country = country r, geometry = geometry r,
                                   population = population r,
                                   centroid = cen (geometry r), cluster = l\<rparr>)
                     (zip ?rows (replicate (length ?rows) (-1::int)))"
  have h: "hotspot_gdf cen gdf = Inr hs"
    using fit unfolding hotspot_gdf_def hs_def by (simp add: Let_def)
  have "map cluster hs = replicate (length ?rows) (-1)"
    unfolding hs_def by (simp add: map_replicate_const [symmetric] zip_replicate2 o_def case_prod_unfold cong: map_cong)
  then have "num_clusters (map cluster hs) = 0"
    using assms(1) by (simp add: num_clusters_def remdups_replicate_pos)
  then show ?thesis
    by (simp add: perform_hotspot_analysis_def h Let_def)
qed

lemma hotspot_gdf_Inr:
  assumes "hotspot_gdf cen gdf = Inr hs"
  shows "\<exists>labels. length labels = length (filter above_threshold gdf) \<and>
           hs = map (\<lambda>(r, l). \<lparr>country = country r, geometry = geometry r,
                                 population = population r,
                                 centroid = cen (geometry r), cluster = l\<rparr>)
                  (zip (filter above_threshold gdf) labels)"
proof -
  let ?coords = "map (\<lambda>p. (snd p, fst p)) (map (\<lambda>r. cen (geometry r)) (filter above_threshold gdf))"
  from assms obtain labels where fit: "DBSCAN_fit 15 3 ?coords = Inr labels"
    and hs: "hs = map (\<lambda>(r, l). \<lparr>country = country r, geometry = geometry r,
                                 population = population r,
                                 centroid = cen (geometry r), cluster = l\<rparr>)
                  (zip (filter above_threshold gdf) labels)"
    unfolding hotspot_gdf_def by (auto simp: Let_def split: sum.splits)
  from length_DBSCAN_fit [OF fit] have "length labels = length (filter above_threshold gdf)"
    by simp
  with hs show ?thesis by blast
qed

lemma hotspot_rows:
  assumes "hotspot_gdf cen gdf = Inr hs"
  shows "map (\<lambda>h. \<lparr>country = country h, geometry = geometry h, population = population h\<rparr>) hs
           = filter above_threshold gdf"
    and "\<forall>h\<in>set hs. centroid h = cen (geometry h)"
proof -
  from hotspot_gdf_Inr [OF assms] obtain labels where
    len: "length labels = length (filter above_threshold gdf)"
    and hs: "hs = map (\<lambda>(r, l). \<lparr>country = country r, geometry = geometry r,
                                 population = population r,
                                 centroid = cen (geometry r), cluster = l\<rparr>)
                  (zip (filter above_threshold gdf) labels)"
    by blast
  have "map (\<lambda>h. \<lparr>country = country h, geometry = geometry h, population = population h\<rparr>) hs
          = map fst (zip (filter above_threshold gdf) labels)"
    unfolding hs by (simp add: case_prod_unfold)
  also have "\<dots> = filter above_threshold gdf"
    using len by simp
  finally show "map (\<lambda>h. \<lparr>country = country h, geometry = geometry h, population = population h\<rparr>) hs
           = filter above_threshold gdf" .
  show "\<forall>h\<in>set hs. centroid h = cen (geometry h)"
    unfolding hs by auto
qed

lemma hotspot_row_source:
  assumes "hotspot_gdf cen gdf = Inr hs" and "h \<in> set hs"
  shows "\<exists>r\<in>set gdf. above_threshold r \<and> country h = country r \<and> geometry h = geometry r \<and>
           population h = population r \<and> centroid h = cen (geometry r)"
proof -
  from hotspot_gdf_Inr [OF assms(1)] obtain labels where
    hs: "hs = map (\<lambda>(r, l). \<lparr>country = country r, geometry = geometry r,
                                 population = population r,
                                 centroid = cen (geometry r), cluster = l\<rparr>)
                  (zip (filter above_threshold gdf) labels)"
    by blast
  from assms(2) obtain r l where "(r, l) \<in> set (zip (filter above_threshold gdf) labels)"
    and h: "h = \<lparr>country = country r, geometry = geometry r, population = population r,
               centroid = cen (geometry r), cluster = l\<rparr>"
    unfolding hs by auto
  then have "r \<in> set (filter above_threshold gdf)"
    by (auto dest: set_zip_leftD)
  then show ?thesis
    using h by auto
qed

lemma add_markers_from:
  "add_markers colors cid rows layer = Inr layer' \<Longrightarrow> m \<in> set layer' \<Longrightarrow>
     m \<in> set layer \<or> (\<exists>r\<in>set rows. circle_marker colors cid r = Inr m)"
proof (induction rows arbitrary: layer)
  case Nil
  then show ?case by simp
next
  case (Cons r rows)
  from Cons.prems(1) obtain m0 where m0: "circle_marker colors cid r = Inr m0"
    and rest: "add_markers colors cid rows (layer @ [m0]) = Inr layer'"
    by (auto split: sum.splits)
  from Cons.IH [OF rest Cons.prems(2)] m0 show ?case by auto
qed

lemma render_clusters_from:
  "render_clusters colors hs cids layer = Inr layer' \<Longrightarrow> m \<in> set layer' \<Longrightarrow>
     m \<in> set layer \<or> (\<exists>r\<in>set hs. \<exists>cid. circle_marker colors cid r = Inr m)"
proof (induction cids arbitrary: layer)
  case Nil
  then show ?case by simp
next
  case (Cons cid cids)
  from Cons.prems(1) obtain l1 where
    l1: "add_markers colors cid (filter (\<lambda>r. cluster r = int cid) hs) layer = Inr l1"
    and rest: "render_clusters colors hs cids l1 = Inr layer'"
    by (auto split: sum.splits)
  from Cons.IH [OF rest Cons.prems(2)] show ?case
  proof
    assume "m \<in> set l1"
    from add_markers_from [OF l1 this] show ?thesis by auto
  next
    assume "\<exists>r\<in>set hs. \<exists>cid. circle_marker colors cid r = Inr m"
    then show ?thesis by simp
  qed
qed

lemma circle_marker_Inr:
  "circle_marker colors cid r = Inr m \<Longrightarrow>
     location m = (snd (centroid r), fst (centroid r)) \<and>
     popup m = country r @ '' (Cluster '' @ str_nat cid @ '')'' \<and>
     cid < length colors \<and> color m = colors ! cid"
  by (auto simp: circle_marker_def split: if_splits)

text \<open>
  C7: the rows that are clustered are exactly the rows of the merged table with a
  population above 1,000,000, in their order, so every row that receives a cluster label
  has such a population; and every marker of the hotspot layer is drawn at the centroid
  of, and names, a country of the merged table with a population above 1,000,000.
\<close>

theorem hotspots_only_above_threshold:
  "(\<forall>hs. hotspot_gdf cen gdf = Inr hs \<longrightarrow>
      map (\<lambda>h. \<lparr>country = country h, geometry = geometry h, population = population h\<rparr>) hs
        = filter above_threshold gdf \<and>
      (\<forall>h\<in>set hs. \<exists>p. population h = Some p \<and> 1000000 < p)) \<and>
   (\<forall>n folium_map'. perform_hotspot_analysis cen palette gdf folium_map = Inr (n, folium_map') \<longrightarrow>
      (\<exists>hotspot_layer. folium_map' = folium_map @ [FeatureGroup ''Population Hotspots'' hotspot_layer] \<and>
         (\<forall>m\<in>set hotspot_layer. \<exists>r\<in>set gdf.
             (\<exists>p. population r = Some p \<and> 1000000 < p) \<and>
             location m = (snd (cen (geometry r)), fst (cen (geometry r))) \<and>
             (\<exists>k. popup m = country r @ '' (Cluster '' @ str_nat k @ '')''))))"
proof (intro conjI allI impI)
  fix hs
  assume h: "hotspot_gdf cen gdf = Inr hs"
  show "map (\<lambda>h. \<lparr>country = country h, geometry = geometry h, population = population h\<rparr>) hs
        = filter above_threshold gdf"
    using h by (rule hotspot_rows(1))
  show "\<forall>h\<in>set hs. \<exists>p. population h = Some p \<and> 1000000 < p"
  proof
    fix x
    assume "x \<in> set hs"
    from hotspot_row_source [OF h this]
    show "\<exists>p. population x = Some p \<and> 1000000 < p"
      by (auto simp: above_threshold_def split: option.splits)
  qed
next
  fix n folium_map'
  assume run: "perform_hotspot_analysis cen palette gdf folium_map = Inr (n, folium_map')"
  then obtain hs layer where h: "hotspot_gdf cen gdf = Inr hs"
    and rc: "render_clusters (take (num_clusters (map cluster hs)) palette) hs
               [0..<num_clusters (map cluster hs)] [] = Inr layer"
    and fm: "folium_map' = folium_map @ [FeatureGroup ''Population Hotspots'' layer]"
    unfolding perform_hotspot_analysis_def by (auto simp: Let_def split: sum.splits)
  have "\<exists>r\<in>set gdf.
             (\<exists>p. population r = Some p \<and> 1000000 < p) \<and>
             location m = (snd (cen (geometry r)), fst (cen (geometry r))) \<and>
             (\<exists>k. popup m = country r @ '' (Cluster '' @ str_nat k @ '')'')"
    if "m \<in> set layer" for m
  proof -
    from render_clusters_from [OF rc that] obtain x cid where x: "x \<in> set hs"
      and cm: "circle_marker (take (num_clusters (map cluster hs)) palette) cid x = Inr m"
      by auto
    from hotspot_row_source [OF h x] obtain r where r: "r \<in> set gdf" "above_threshold r"
      "country x = country r" "centroid x = cen (geometry r)"
      by blast
    from circle_marker_Inr [OF cm] r show ?thesis
      by (auto simp: above_threshold_def split: option.splits)
  qed
  with fm show "\<exists>hotspot_layer. folium_map' = folium_map @ [FeatureGroup ''Population Hotspots'' hotspot_layer] \<and>
         (\<forall>m\<in>set hotspot_layer. \<exists>r\<in>set gdf.
             (\<exists>p. population r = Some p \<and> 1000000 < p) \<and>
             location m = (snd (cen (geometry r)), fst (cen (geometry r))) \<and>
             (\<exists>k. popup m = country r @ '' (Cluster '' @ str_nat k @ '')''))"
    by blast
qed

lemma expand_cluster_labels:
  "j < length ls \<Longrightarrow>
     expand_cluster nb cs k st ls ! j = ls ! j \<or>
     (ls ! j = -1 \<and> expand_cluster nb cs k st ls ! j = int k)"
proof (induction nb cs k st ls rule: expand_cluster.induct)
  case (1 nb cs k ls)
  show ?case by (simp add: expand_cluster.simps)
next
  case (2 nb cs k i st ls)
  show ?case
  proof (cases "i < length ls \<and> ls ! i = -1")
    case True
    define ls' where "ls' = ls[i := int k]"
    have j': "j < length ls'" using "2.prems" by (simp add: ls'_def)
    define res where "res = expand_cluster nb cs k (i # st) ls"
    have res: "res ! j = ls' ! j \<or> (ls' ! j = -1 \<and> res ! j = int k)"
    proof (cases "cs ! i")
      case c: True
      have "res = expand_cluster nb cs k (rev (filter (\<lambda>v. ls' ! v = -1) (nb ! i)) @ st) ls'"
        unfolding res_def ls'_def using True c by (subst expand_cluster.simps) (simp add: Let_def)
      then show ?thesis
        using "2.IH"(1) [OF True ls'_def c j'] by simp
    next
      case c: False
      have "res = expand_cluster nb cs k st ls'"
        unfolding res_def ls'_def using True c by (subst expand_cluster.simps) (simp add: Let_def)
      then show ?thesis
        using "2.IH"(2) [OF True ls'_def c j'] by simp
    qed
    show ?thesis
    proof (cases "j = i")
      case e: True
      then have "ls' ! j = int k" using True by (simp add: ls'_def)
      with res have "res ! j = int k" by auto
      with e True show ?thesis by (simp add: res_def)
    next
      case False
      then have "ls' ! j = ls ! j" by (simp add: ls'_def)
      with res show ?thesis by (simp add: res_def)
    qed
  next
    case False
    have "expand_cluster nb cs k (i # st) ls = expand_cluster nb cs k st ls"
      using False by (subst expand_cluster.simps) auto
    then show ?thesis
      using "2.IH"(3) [OF False "2.prems"] by simp
  qed
qed

lemma expand_cluster_seed:
  assumes "i < length ls" and "ls ! i = -1"
  shows "expand_cluster nb cs k [i] ls ! i = int k"
proof -
  define ls' where "ls' = ls[i := int k]"
  have i': "i < length ls'" and v: "ls' ! i = int k"
    using assms by (simp_all add: ls'_def)
  have "\<exists>st. expand_cluster nb cs k [i] ls = expand_cluster nb cs k st ls'"
    using assms unfolding ls'_def
    by (subst expand_cluster.simps) (auto simp: Let_def)
  then obtain st where "expand_cluster nb cs k [i] ls = expand_cluster nb cs k st ls'"
    by blast
  with expand_cluster_labels [OF i', of nb cs k st] v show ?thesis
    by auto
qed

lemma dbscan_inner_labels:
  assumes "set todo \<subseteq> {..<length ls}"
    and "set ls \<subseteq> insert (-1) (int ` {..<k})" and "int ` {..<k} \<subseteq> set ls"
  shows "\<exists>k'. set (dbscan_inner cs nb todo k ls) \<subseteq> insert (-1) (int ` {..<k'}) \<and>
              int ` {..<k'} \<subseteq> set (dbscan_inner cs nb todo k ls)"
  using assms
proof (induction todo arbitrary: k ls)
  case Nil
  then show ?case by auto
next
  case (Cons i todo)
  show ?case
  proof (cases "ls ! i \<noteq> -1 \<or> \<not> cs ! i")
    case True
    then have "dbscan_inner cs nb (i # todo) k ls = dbscan_inner cs nb todo k ls"
      by simp
    moreover have "set todo \<subseteq> {..<length ls}" using Cons.prems(1) by simp
    ultimately show ?thesis
      using Cons.IH [OF _ Cons.prems(2,3)] by simp
  next
    case False
    define ls' where "ls' = expand_cluster nb cs k [i] ls"
    have i: "i < length ls" and unl: "ls ! i = -1"
      using Cons.prems(1) False by auto
    have len: "length ls' = length ls"
      by (simp add: ls'_def length_expand_cluster)
    have step: "ls' ! j = ls ! j \<or> (ls ! j = -1 \<and> ls' ! j = int k)" if "j < length ls" for j
      unfolding ls'_def using that by (rule expand_cluster_labels)
    have seed: "ls' ! i = int k"
      unfolding ls'_def using i unl by (rule expand_cluster_seed)
    have sub: "set ls' \<subseteq> insert (-1) (int ` {..<Suc k})"
    proof
      fix l
      assume "l \<in> set ls'"
      then obtain j where j: "j < length ls" and l: "l = ls' ! j"
        using len by (auto simp: in_set_conv_nth)
      from step [OF j] have "l = ls ! j \<or> l = int k" using l by auto
      moreover have "ls ! j \<in> insert (-1) (int ` {..<k})"
        using Cons.prems(2) nth_mem [OF j] by blast
      ultimately show "l \<in> insert (-1) (int ` {..<Suc k})"
        by (auto simp: lessThan_Suc)
    qed
    have sup: "int ` {..<Suc k} \<subseteq> set ls'"
    proof
      fix l
      assume "l \<in> int ` {..<Suc k}"
      then consider (old) "l \<in> int ` {..<k}" | (new) "l = int k"
        by (auto simp: lessThan_Suc)
      then show "l \<in> set ls'"
      proof cases
        case old
        then have "l \<in> set ls" and "l \<noteq> -1" using Cons.prems(3) by auto
        then obtain j where j: "j < length ls" and l: "ls ! j = l"
          by (auto simp: in_set_conv_nth)
        from step [OF j] l \<open>l \<noteq> -1\<close> have "ls' ! j = l" by auto
        then show ?thesis using j len by (metis nth_mem)
      next
        case new
        then show ?thesis using seed i len by (metis nth_mem)
      qed
    qed
    have "dbscan_inner cs nb (i # todo) k ls = dbscan_inner cs nb todo (Suc k) ls'"
      using False by (simp add: ls'_def)
    moreover have "set todo \<subseteq> {..<length ls'}" using Cons.prems(1) len by simp
    ultimately show ?thesis
      using Cons.IH [OF _ sub sup] by simp
  qed
qed

lemma num_clusters_labels:
  assumes "set ls \<subseteq> insert (-1) (int ` {..<k})" and "int ` {..<k} \<subseteq> set ls"
  shows "num_clusters ls = k"
proof -
  have c: "card (int ` {..<k}) = k"
    by (simp add: card_image)
  have n: "(-1::int) \<notin> int ` {..<k}" by auto
  show ?thesis
  proof (cases "-1 \<in> set ls")
    case True
    then have "set ls = insert (-1) (int ` {..<k})" using assms by auto
    then have "card (set ls) = Suc k" using c n by simp
    then show ?thesis using True by (simp add: num_clusters_def length_remdups_card_conv)
  next
    case False
    then have "set ls = int ` {..<k}" using assms by auto
    then have "card (set ls) = k" using c by simp
    then show ?thesis using False by (simp add: num_clusters_def length_remdups_card_conv)
  qed
qed

lemma DBSCAN_fit_labels:
  assumes "DBSCAN_fit eps m X = Inr labels"
  shows "set labels \<subseteq> insert (-1) (int ` {..<num_clusters labels}) \<and>
         int ` {..<num_clusters labels} \<subseteq> set labels"
proof -
  let ?cs = "map (\<lambda>nb. m \<le> length nb) (radius_neighbors eps X)"
  have l: "labels = dbscan_inner ?cs (radius_neighbors eps X) [0..<length X] 0
                      (replicate (length X) (-1))"
    using assms by (auto simp: DBSCAN_fit_def Let_def split: if_splits)
  have "\<exists>k'. set labels \<subseteq> insert (-1) (int ` {..<k'}) \<and> int ` {..<k'} \<subseteq> set labels"
    unfolding l by (rule dbscan_inner_labels) auto
  then obtain k' where k': "set labels \<subseteq> insert (-1) (int ` {..<k'})" "int ` {..<k'} \<subseteq> set labels"
    by blast
  then have "num_clusters labels = k'" by (rule num_clusters_labels)
  with k' show ?thesis by simp
qed

lemma add_markers_fail:
  "rows \<noteq> [] \<Longrightarrow> length colors \<le> cid \<Longrightarrow> add_markers colors cid rows layer = Inl IndexError"
  by (cases rows) (simp_all add: circle_marker_def)

lemma add_markers_error: "add_markers colors cid rows layer = Inl e \<Longrightarrow> e = IndexError"
  by (induction rows arbitrary: layer) (auto simp: circle_marker_def split: sum.splits if_splits)

lemma render_clusters_fail:
  assumes "cid \<in> set cids" and "length colors \<le> cid" and "\<exists>r\<in>set hs. cluster r = int cid"
  shows "render_clusters colors hs cids layer = Inl IndexError"
  using assms(1)
proof (induction cids arbitrary: layer)
  case Nil
  then show ?case by simp
next
  case (Cons c cids)
  show ?case
  proof (cases "add_markers colors c (filter (\<lambda>r. cluster r = int c) hs) layer")
    case (Inl e)
    then show ?thesis using add_markers_error [OF Inl] by simp
  next
    case (Inr l1)
    have "c \<noteq> cid"
    proof
      assume "c = cid"
      then have "filter (\<lambda>r. cluster r = int c) hs \<noteq> []"
        using assms(3) by (auto simp: filter_empty_conv)
      from add_markers_fail [OF this, of colors c layer] assms(2) \<open>c = cid\<close> Inr
      show False by simp
    qed
    then have "cid \<in> set cids" using Cons.prems by simp
    from Cons.IH [OF this] Inr show ?thesis by simp
  qed
qed

lemma hotspot_gdf_labels:
  assumes "hotspot_gdf cen gdf = Inr hs"
  shows "set (map cluster hs) \<subseteq> insert (-1) (int ` {..<num_clusters (map cluster hs)}) \<and>
         int ` {..<num_clusters (map cluster hs)} \<subseteq> set (map cluster hs)"
proof -
  let ?rows = "filter above_threshold gdf"
  let ?coords = "map (\<lambda>p. (snd p, fst p)) (map (\<lambda>r. cen (geometry r)) ?rows)"
  from assms obtain labels where fit: "DBSCAN_fit 15 3 ?coords = Inr labels"
    and hs: "hs = map (\<lambda>(r, l). \<lparr>country = country r, geometry = geometry r,
                                 population = population r,
                                 centroid = cen (geometry r), cluster = l\<rparr>)
                  (zip ?rows labels)"
    unfolding hotspot_gdf_def by (auto simp: Let_def split: sum.splits)
  have len: "length labels = length ?rows"
    using length_DBSCAN_fit [OF fit] by simp
  have "map cluster hs = map snd (zip ?rows labels)"
    unfolding hs by (simp add: case_prod_unfold)
  also have "\<dots> = labels" using len by simp
  finally have "map cluster hs = labels" .
  with DBSCAN_fit_labels [OF fit] show ?thesis by simp
qed

text \<open>
  C1: the claim says the colour lookup does not throw when there are more clusters than
  palette colours. The code does the opposite: \<open>colors\<close> is the palette cut to the
  number of clusters, hence no longer than the palette, and the loop indexes it with
  every cluster id. Whenever the clustering yields more clusters than the palette has
  colours, the lookup raises IndexError.
\<close>

theorem palette_exhaustion_raises:
  assumes "hotspot_gdf cen gdf = Inr hs"
    and "length palette < num_clusters (map cluster hs)"
  shows "perform_hotspot_analysis cen palette gdf folium_map = Inl IndexError"
proof -
  let ?n = "num_clusters (map cluster hs)"
  have "int (length palette) \<in> int ` {..<?n}"
    using assms(2) by simp
  then have "int (length palette) \<in> set (map cluster hs)"
    using hotspot_gdf_labels [OF assms(1)] by blast
  then have ex: "\<exists>r\<in>set hs. cluster r = int (length palette)"
    by auto
  have "length (take ?n palette) \<le> length palette" by simp
  moreover have "length palette \<in> set [0..<?n]" using assms(2) by simp
  ultimately have "render_clusters (take ?n palette) hs [0..<?n] [] = Inl IndexError"
    using ex by (intro render_clusters_fail)
  then show ?thesis
    by (simp add: perform_hotspot_analysis_def assms(1) Let_def)
qed

theorem palette_exhaustion_raises_witness:
  "length Bold < (case hotspot_gdf (\<lambda>g. g) twelve_clusters of
                    Inr hs \<Rightarrow> num_clusters (map cluster hs) | Inl e \<Rightarrow> 0) \<and>
   perform_hotspot_analysis (\<lambda>g. g) Bold twelve_clusters [Choropleth ''Population'']
     = Inl IndexError"
proof -
  have n: "(case hotspot_gdf (\<lambda>g. g) twelve_clusters of
              Inr hs \<Rightarrow> num_clusters (map cluster hs) | Inl e \<Rightarrow> 0) = 12"
    by code_simp
  then obtain hs where hs: "hotspot_gdf (\<lambda>g. g) twelve_clusters = Inr hs"
    and c: "num_clusters (map cluster hs) = 12"
    by (cases "hotspot_gdf (\<lambda>g. g) twelve_clusters") simp_all
  have b: "length Bold = 11" by (simp add: Bold_def)
  from palette_exhaustion_raises [OF hs, of Bold "[Choropleth ''Population'']"] b c n
  show ?thesis by simp
qed

text \<open>
  C4: the claim includes the case of no qualifying country. There the code fails: the
  coordinate array is empty, and the clustering rejects an input without samples with
  ValueError, before any cluster is counted.
\<close>

theorem no_qualifying_country_raises:
  assumes "filter above_threshold gdf = []"
  shows "perform_hotspot_analysis cen palette gdf folium_map = Inl ValueError"
  using hotspot_gdf_none [OF assms, of cen]
  by (simp add: perform_hotspot_analysis_def)

theorem no_qualifying_country_raises_witness:
  "filter above_threshold
     [\<lparr>country = ''Luxembourg'', geometry = (6, 50), population = Some 660000\<rparr>,
      \<lparr>country = ''Antarctica'', geometry = (0, -90), population = Some (0::rat)\<rparr>] = [] \<and>
   perform_hotspot_analysis (\<lambda>g. g) Bold
     [\<lparr>country = ''Luxembourg'', geometry = (6, 50), population = Some 660000\<rparr>,
      \<lparr>country = ''Antarctica'', geometry = (0, -90), population = Some 0\<rparr>]
     [Choropleth ''Population''] = Inl ValueError"
  using no_qualifying_country_raises [of
     "[\<lparr>country = ''Luxembourg'', geometry = (6, 50), population = Some 660000\<rparr>,
       \<lparr>country = ''Antarctica'', geometry = (0, -90), population = Some 0\<rparr>]"
     "\<lambda>g. g" Bold "[Choropleth ''Population'']"]
  by (simp add: above_threshold_def)

theorem hotspots_only_above_threshold_witness:
  "perform_hotspot_analysis (\<lambda>g. g) Bold western_europe [Choropleth ''Population'']
     = Inr (1, [Choropleth ''Population'',
                FeatureGroup ''Population Hotspots''
                  [\<lparr>location = (46, 2), radius = 5, color = ''rgb(127, 60, 141)'', fill = True,
                      fill_color = ''rgb(127, 60, 141)'', fill_opacity = 8 / 10,
                      popup = ''France (Cluster 0)''\<rparr>,
                   \<lparr>location = (51, 10), radius = 5, color = ''rgb(127, 60, 141)'', fill = True,
                      fill_color = ''rgb(127, 60, 141)'', fill_opacity = 8 / 10,
                      popup = ''Germany (Cluster 0)''\<rparr>,
                   \<lparr>location = (50, 4), radius = 5, color = ''rgb(127, 60, 141)'', fill = True,
                      fill_color = ''rgb(127, 60, 141)'', fill_opacity = 8 / 10,
                      popup = ''Belgium (Cluster 0)''\<rparr>]]) \<and>
   \<not> above_threshold \<lparr>country = ''Luxembourg'', geometry = (6, 50), population = Some 660000\<rparr> \<and>
   \<not> above_threshold \<lparr>country = ''Iceland'', geometry = (-19, 65), population = Some 380000\<rparr>"
proof -
  have e: "perform_hotspot_analysis (\<lambda>g. g) Bold western_europe [Choropleth ''Population'']
     = Inr (1, [Choropleth ''Population'',
                FeatureGroup ''Population Hotspots''
                  [\<lparr>location = (46, 2), radius = 5, color = ''rgb(127, 60, 141)'', fill = True,
                      fill_color = ''rgb(127, 60, 141)'', fill_opacity = 8 / 10,
                      popup = ''France (Cluster 0)''\<rparr>,
                   \<lparr>location = (51, 10), radius = 5, color = ''rgb(127, 60, 141)'', fill = True,
                      fill_color = ''rgb(127, 60, 141)'', fill_opacity = 8 / 10,
                      popup = ''Germany (Cluster 0)''\<rparr>,
                   \<lparr>location = (50, 4), radius = 5, color = ''rgb(127, 60, 141)'', fill = True,
                      fill_color = ''rgb(127, 60, 141)'', fill_opacity = 8 / 10,
                      popup = ''Belgium (Cluster 0)''\<rparr>]])"
    by code_simp
  from hotspots_only_above_threshold [of "\<lambda>g. g" western_europe Bold "[Choropleth ''Population'']"] e
  show ?thesis by (simp add: above_threshold_def)
qed

subsection \<open>Continent totals\<close>





















lemma sample_plot:
  "create_time_series_plot sample_alpha2 sample_continent sample_table
     = Inr (sample_table @ [(''continent'', [Str ''EU'', Null, Str ''AF'', Str ''EU''])],
            [\<lparr>continent = Str ''AF'', year = 1960, total = Num 0\<rparr>,
             \<lparr>continent = Str ''AF'', year = 2022, total = Num 7\<rparr>,
             \<lparr>continent = Str ''EU'', year = 1960, total = Num 15\<rparr>,
             \<lparr>continent = Str ''EU'', year = 2022, total = Num 20\<rparr>])"
  by code_simp



subsection \<open>What the calls leave of their arguments\<close>

text \<open>
  C3, as stated, fails for both calls. The time-series call leaves the caller's population
  table with a new column, and the hotspot call leaves the caller's map with a new layer.
\<close>

theorem arguments_mutated:
  "(case run_create_time_series_plot sample_alpha2 sample_continent 0
           [DataFrame sample_table :: point object] of
      Inr heap' \<Rightarrow> lookup heap' 0 | Inl e \<Rightarrow> None)
     = Some (DataFrame (sample_table @ [(''continent'', [Str ''EU'', Null, Str ''AF'', Str ''EU''])])) \<and>
   sample_table @ [(''continent'', [Str ''EU'', Null, Str ''AF'', Str ''EU''])] \<noteq> sample_table \<and>
   (case run_perform_hotspot_analysis (\<lambda>g. g) Bold 0 1
           [GeoDataFrame western_europe, FoliumMap [Choropleth ''Population'']] of
      Inr heap' \<Rightarrow> map_option (\<lambda>ob. case ob of FoliumMap children \<Rightarrow> length children | _ \<Rightarrow> 0)
                     (lookup heap' 1)
    | Inl e \<Rightarrow> None) = Some 2"
proof -
  have a: "(case run_create_time_series_plot sample_alpha2 sample_continent 0
           [DataFrame sample_table :: point object] of
      Inr heap' \<Rightarrow> lookup heap' 0 | Inl e \<Rightarrow> None)
     = Some (DataFrame (sample_table @ [(''continent'', [Str ''EU'', Null, Str ''AF'', Str ''EU''])]))"
    by (simp add: run_create_time_series_plot_def lookup_def sample_plot)
  have b: "(case run_perform_hotspot_analysis (\<lambda>g. g) Bold 0 1
           [GeoDataFrame western_europe, FoliumMap [Choropleth ''Population'']] of
      Inr heap' \<Rightarrow> map_option (\<lambda>ob. case ob of FoliumMap children \<Rightarrow> length children | _ \<Rightarrow> 0)
                     (lookup heap' 1)
    | Inl e \<Rightarrow> None) = Some 2"
    by code_simp
  from a b show ?thesis by simp
qed

text \<open>
  C3, amended: the Hotspot Detector does not mutate the merged table passed to it. After a
  call that returns, the merged table is the object it was before, and so is every other
  object that existed before the call except the map: the function works on a copy, and
  its one write to an argument adds the hotspot layer to the map object it is given.
\<close>

theorem hotspot_analysis_keeps_merged_table:
  assumes "run_perform_hotspot_analysis cen palette gdf folium_map heap = Inr heap'"
  shows "lookup heap' gdf = lookup heap gdf \<and>
         (\<forall>r. r < length heap \<and> r \<noteq> folium_map \<longrightarrow> lookup heap' r = lookup heap r) \<and>
         (\<exists>rows. lookup heap gdf = Some (GeoDataFrame rows)) \<and>
         (\<exists>children hotspot_layer.
            lookup heap folium_map = Some (FoliumMap children) \<and>
            lookup heap' folium_map
              = Some (FoliumMap (children @ [FeatureGroup ''Population Hotspots'' hotspot_layer])))"
proof -
  from assms obtain rows children where g: "lookup heap gdf = Some (GeoDataFrame rows)"
    and m: "lookup heap folium_map = Some (FoliumMap children)"
    unfolding run_perform_hotspot_analysis_def
    by (auto split: option.splits object.splits)
  from assms g m obtain hs n children' where
    run: "perform_hotspot_analysis cen palette rows children = Inr (n, children')"
    and h': "heap' = (heap @ [HotspotFrame hs])[folium_map := FoliumMap children']"
    unfolding run_perform_hotspot_analysis_def
    by (auto split: sum.splits)
  have gl: "gdf < length heap" and ml: "folium_map < length heap"
    using g m by (auto simp: lookup_def split: if_splits)
  have ne: "gdf \<noteq> folium_map"
    using g m by auto
  have keep: "lookup heap' r = lookup heap r" if "r < length heap" "r \<noteq> folium_map" for r
    using that unfolding h' by (simp add: lookup_def nth_append)
  from run obtain layer where c': "children' = children @ [FeatureGroup ''Population Hotspots'' layer]"
    unfolding perform_hotspot_analysis_def by (auto simp: Let_def split: sum.splits)
  have "lookup heap' folium_map = Some (FoliumMap children')"
    unfolding h' using ml by (simp add: lookup_def)
  with keep gl ne g m c' show ?thesis by auto
qed

theorem hotspot_analysis_keeps_merged_table_witness:
  "run_perform_hotspot_analysis (\<lambda>g. g) Bold 0 1
     [GeoDataFrame western_europe, FoliumMap [Choropleth ''Population'']] \<noteq> Inl ValueError \<and>
   (case run_perform_hotspot_analysis (\<lambda>g. g) Bold 0 1
           [GeoDataFrame western_europe, FoliumMap [Choropleth ''Population'']] of
      Inr heap' \<Rightarrow> lookup heap' 0 | Inl e \<Rightarrow> None) = Some (GeoDataFrame western_europe)"
proof -
  have "(case run_perform_hotspot_analysis (\<lambda>g. g) Bold 0 1
           [GeoDataFrame western_europe, FoliumMap [Choropleth ''Population'']] of
      Inr heap' \<Rightarrow> True | Inl e \<Rightarrow> False)"
    by code_simp
  then obtain heap' where r: "run_perform_hotspot_analysis (\<lambda>g. g) Bold 0 1
           [GeoDataFrame western_europe, FoliumMap [Choropleth ''Population'']] = Inr heap'"
    by (auto split: sum.splits)
  from hotspot_analysis_keeps_merged_table [OF r] r show ?thesis
    by (simp add: lookup_def)
qed

end
